theory Spec2Isabelle
  imports Main "HOL-Library.Char_ord" "HOL-Library.List_Lexorder" "HOL-Library.AList"
begin

section \<open>Data model of \<^verbatim>\<open>nucypher/network/nodes.py\<close>\<close>

text \<open>
  Byte strings and text are both character lists. Python compares \<^verbatim>\<open>str\<close> values
  lexicographically by code point; the order on \<^typ>\<open>string\<close> used below is the
  lexicographic order on characters by their code.
\<close>

type_synonym bytes = string

text \<open>
  Every exception class that the modelled code raises, catches or lets through. In
  \<^verbatim>\<open>requests\<close>, \<^verbatim>\<open>SSLError\<close> and \<^verbatim>\<open>ConnectTimeout\<close> are subclasses of
  \<^verbatim>\<open>ConnectionError\<close>; \<^verbatim>\<open>InvalidNode\<close> is a subclass of \<^verbatim>\<open>SuspiciousActivity\<close>.
\<close>

datatype error =
    AttributeError
  | UnboundLocalError
  | ValueError
  | RuntimeError
  | SSLError
  | ConnectionError
  | ConnectTimeout
  | ReadTimeout
  | SuspiciousActivity
  | InvalidNode
  | WrongMode
  | NoSigningPower
  | NotEnoughTeachers
  | OtherError string

definition is_requests_ConnectionError :: "error \<Rightarrow> bool" where
  "is_requests_ConnectionError e = (e = ConnectionError \<or> e = SSLError \<or> e = ConnectTimeout)"

definition is_SuspiciousActivity :: "error \<Rightarrow> bool" where
  "is_SuspiciousActivity e = (e = SuspiciousActivity \<or> e = InvalidNode)"

text \<open>
  A \<^verbatim>\<open>VerifiableNode\<close> as the learner sees it: the fields that the methods below
  read or write. \<^verbatim>\<open>constants.NOT_SIGNED\<close> is \<open>None\<close>. The attribute \<^verbatim>\<open>last_seen\<close>
  is written but never read by the modelled methods and is left out. The nodes a learner
  handles are parsed from bytes and hold no signing power of their own, so the lazy
  branch of the \<^verbatim>\<open>timestamp\<close> and \<^verbatim>\<open>_interface_signature\<close> properties, which signs
  with the node's own key, ends in \<^verbatim>\<open>NoSigningPower\<close> for them. Two things of that
  branch are outside the model: a node that does hold signing power signs and dates
  itself, and \<^verbatim>\<open>_sign_and_date_interface_info\<close> has already put \<^verbatim>\<open>maya.now()\<close>
  into \<^verbatim>\<open>_timestamp\<close> when the stamp refuses to sign. Both concern records without a
  timestamp or without an interface signature only.
\<close>

record node =
  checksum_public_address :: string
  canonical_public_address :: bytes
  verifying_key :: bytes
  encrypting_key :: bytes
  evidence_of_decentralized_identity :: "bytes option"
  interface_signature_object :: "bytes option"
  timestamp_attr :: "int option"
  rest_host :: string
  rest_port :: nat
  certificate_common_name :: string
  certificate_filepath :: string
  federated_only :: bool
  verified_stamp :: bool
  verified_interface :: bool
  verified_node :: bool

text \<open>
  The self-description that \<^verbatim>\<open>_internal_splitter\<close> cuts out of a
  \<^verbatim>\<open>node_information\<close> response; only the four fields that \<^verbatim>\<open>verify_node\<close>
  compares are kept.
\<close>

record node_info =
  info_identity_evidence :: "bytes option"
  info_verifying_key :: bytes
  info_encrypting_key :: bytes
  info_public_address :: bytes

type_synonym seednode_metadata = "string \<times> string \<times> nat"

text \<open>
  The collaborators that are not part of this file of the repository (network
  middleware, signature primitives, digest, nickname table, node storage, the
  \<^verbatim>\<open>Ursula\<close> class, the clock and the random generator) are parameters.
  A network call answers with an exception or with a status code and a payload.
\<close>

record env =
  is_self :: "node \<Rightarrow> bool"
  self_is_verifiable_node :: bool
  signature_verify :: "bytes \<Rightarrow> int \<times> bytes \<times> string \<times> nat \<Rightarrow> bytes \<Rightarrow> bool"
  recover_address :: "bytes \<Rightarrow> bytes \<Rightarrow> string"
  node_information :: "string \<Rightarrow> nat \<Rightarrow> string option \<Rightarrow> error + nat \<times> node_info"
  get_nodes_via_rest :: "string \<times> nat \<Rightarrow> string set \<Rightarrow> bool \<Rightarrow> string \<Rightarrow> error + nat \<times> bytes"
  batch_from_bytes :: "bytes \<Rightarrow> bool \<Rightarrow> error + node list"
  from_seednode_metadata :: "seednode_metadata \<Rightarrow> error + node option"
  storage_all :: "node list"
  storage_save :: "node \<Rightarrow> error option"
  node_bytes :: "node \<Rightarrow> bytes"
  keccak_digest_hex :: "bytes \<Rightarrow> string"
  nickname_from_seed :: "string \<Rightarrow> string \<times> string"
  shuffle :: "node list \<Rightarrow> node list"
  now :: int

section \<open>VerifiableNode\<close>

text \<open>The \<^verbatim>\<open>timestamp\<close> property.\<close>

definition timestamp :: "node \<Rightarrow> error + int" where
  "timestamp n = (case timestamp_attr n of None \<Rightarrow> Inl NoSigningPower | Some t \<Rightarrow> Inr t)"

text \<open>The \<^verbatim>\<open>_interface_signature\<close> property.\<close>

definition interface_signature :: "node \<Rightarrow> error + bytes" where
  "interface_signature n =
     (case interface_signature_object n of None \<Rightarrow> Inl NoSigningPower | Some s \<Rightarrow> Inr s)"

text \<open>
  \<^verbatim>\<open>_stamp_has_valid_wallet_signature\<close>. The recovery of the address from the evidence
  is a total function here: evidence that \<^verbatim>\<open>EthSignature\<close> cannot parse, for which the
  library raises an exception of its own, is outside the model.
\<close>

definition stamp_has_valid_wallet_signature :: "env \<Rightarrow> node \<Rightarrow> bool" where
  "stamp_has_valid_wallet_signature E n =
     (case evidence_of_decentralized_identity n of
        None \<Rightarrow> False
      | Some signature_bytes \<Rightarrow>
          recover_address E signature_bytes (verifying_key n) = checksum_public_address n)"

definition stamp_is_valid :: "env \<Rightarrow> node \<Rightarrow> (error + bool) \<times> node" where
  "stamp_is_valid E n =
     (if stamp_has_valid_wallet_signature E n then (Inr True, n\<lparr>verified_stamp := True\<rparr>)
      else if federated_only n \<and> evidence_of_decentralized_identity n = None
        then (Inl WrongMode, n)
      else (Inl InvalidNode, n))"

text \<open>
  The signed message is \<^verbatim>\<open>timestamp_bytes() + canonical_public_address +
  rest_information()[0]\<close>; its byte encoding is left to the verifier.
  \<^verbatim>\<open>timestamp_bytes\<close> packs the epoch into four bytes and raises \<^verbatim>\<open>OverflowError\<close>
  for an epoch below 0 or from \<open>2\<^sup>3\<^sup>2\<close> on; the timestamps of parsed records come from
  four bytes and are in that range, and the model has no such check.
\<close>

definition interface_is_valid :: "env \<Rightarrow> node \<Rightarrow> (error + bool) \<times> node" where
  "interface_is_valid E n =
     (case timestamp n of
        Inl e \<Rightarrow> (Inl e, n)
      | Inr t \<Rightarrow>
          (case interface_signature n of
             Inl e \<Rightarrow> (Inl e, n)
           | Inr s \<Rightarrow>
               (let ok = signature_verify E s
                           (t, canonical_public_address n, rest_host n, rest_port n)
                           (verifying_key n);
                    n' = n\<lparr>verified_interface := ok\<rparr>
                in if ok then (Inr True, n') else (Inl InvalidNode, n'))))"

definition validate_metadata :: "env \<Rightarrow> bool \<Rightarrow> node \<Rightarrow> (error + unit) \<times> node" where
  "validate_metadata E accept_federated_only n =
     (case (if verified_interface n then (Inr True, n) else interface_is_valid E n) of
        (Inl e, n1) \<Rightarrow> (Inl e, n1)
      | (Inr _, n1) \<Rightarrow>
          (if verified_stamp n1 then (Inr (), n1)
           else
             (case stamp_is_valid E n1 of
                (Inl e, n2) \<Rightarrow>
                  (if e = WrongMode \<and> accept_federated_only then (Inr (), n2)
                   else (Inl e, n2))
              | (Inr _, n2) \<Rightarrow> (Inr (), n2))))"

definition info_matches :: "node_info \<Rightarrow> node \<Rightarrow> bool" where
  "info_matches i n =
     (info_encrypting_key i = encrypting_key n \<and>
      info_verifying_key i = verifying_key n \<and>
      info_public_address i = canonical_public_address n \<and>
      info_identity_evidence i = evidence_of_decentralized_identity n)"

text \<open>
  \<^verbatim>\<open>verify_node\<close> returns its result (\<open>Some True\<close> for \<^verbatim>\<open>return True\<close>, \<open>None\<close>
  where the Python falls off the end), the node as it has been mutated, and the list of
  \<^verbatim>\<open>node_information\<close> requests it sent.
\<close>

type_synonym request = "string \<times> nat \<times> string option"

definition verify_node ::
  "env \<Rightarrow> node \<Rightarrow> string option \<Rightarrow> bool \<Rightarrow> bool \<Rightarrow> (error + bool option) \<times> node \<times> request list" where
  "verify_node E n certificate_filepath' accept_federated_only force =
     (if \<not> force \<and> verified_node n then (Inr (Some True), n, [])
      else
        (case validate_metadata E accept_federated_only n of
           (Inl e, n1) \<Rightarrow> (Inl e, n1, [])
         | (Inr _, n1) \<Rightarrow>
             (let req = (rest_host n1, rest_port n1, certificate_filepath') in
              case node_information E (rest_host n1) (rest_port n1) certificate_filepath' of
                Inl e \<Rightarrow> (Inl e, n1, [req])
              | Inr (status_code, info) \<Rightarrow>
                  (if status_code \<noteq> 200 then (Inl RuntimeError, n1, [req])
                   else if \<not> info_matches info n1 then (Inl InvalidNode, n1, [req])
                   else (Inr None, n1\<lparr>verified_node := True\<rparr>, [req])))))"

text \<open>\<^verbatim>\<open>os.path.join\<close> of a directory and a file name.\<close>

definition path_join :: "string \<Rightarrow> string \<Rightarrow> string" where
  "path_join d f =
     (if f \<noteq> [] \<and> hd f = CHR ''/'' then f
      else if d = [] then f
      else if last d = CHR ''/'' then d @ f
      else d @ ''/'' @ f)"

definition certificate_filename :: "node \<Rightarrow> string" where
  "certificate_filename n = checksum_public_address n @ ''.pem''"

definition get_certificate_filepath :: "node \<Rightarrow> string \<Rightarrow> string" where
  "get_certificate_filepath n certificates_dir = path_join certificates_dir (certificate_filename n)"

text \<open>
  \<^verbatim>\<open>save_certificate_to_disk\<close>: the file written by \<^verbatim>\<open>_write_tls_certificate\<close> is
  outside the model; the check of the common name and the new path are kept.
\<close>

definition save_certificate_to_disk :: "node \<Rightarrow> string \<Rightarrow> error + node" where
  "save_certificate_to_disk n directory =
     (if rest_host n \<noteq> certificate_common_name n then Inl ValueError
      else Inr (n\<lparr>certificate_filepath := get_certificate_filepath n directory\<rparr>))"

section \<open>FleetState and Learner\<close>

text \<open>
  \<^verbatim>\<open>FleetState\<close> is a \<^verbatim>\<open>dict\<close> from checksum address to node, kept in insertion
  order, together with its checksum, nickname and time of update.
  \<^verbatim>\<open>constants.NO_KNOWN_NODES\<close> is \<open>None\<close>.
\<close>

record FleetState =
  nodes :: "(string \<times> node) list"
  checksum :: "string option"
  nickname :: "string option"
  nickname_metadata :: "string option"
  updated :: int

text \<open>
  The attributes of a \<^verbatim>\<open>Learner\<close>. A listener is a set owned by a caller, named here
  by a number; \<open>listener_sets\<close> holds what has been added to each. The attribute
  \<^verbatim>\<open>_crashed\<close> is declared by the character classes built on \<^verbatim>\<open>Learner\<close>, with a
  false default that is \<open>None\<close> here; \<^verbatim>\<open>_crash_gracefully\<close> stores the failure in it.
  \<^verbatim>\<open>_learning_task\<close> is a \<^verbatim>\<open>LoopingCall\<close>, of which \<^verbatim>\<open>running\<close> and
  \<^verbatim>\<open>interval\<close> are kept.
\<close>

record learner =
  known_nodes :: FleetState
  learner_federated_only :: bool
  save_metadata :: bool
  known_certificates_dir :: string
  learning_listeners :: "string \<Rightarrow> nat list"
  listener_sets :: "nat \<Rightarrow> string set"
  node_ids_to_learn_about_immediately :: "string set"
  teacher_nodes :: "node list"
  current_teacher_node_attr :: "node option"
  learning_task_running :: bool
  learning_task_interval :: "int option"
  learning_round :: int
  rounds_without_new_nodes :: int
  seed_nodes :: "seednode_metadata list"
  unresponsive_seed_nodes :: "seednode_metadata set"
  done_seeding :: bool
  crashed :: "error option"

definition SHORT_LEARNING_DELAY :: int where
  "SHORT_LEARNING_DELAY = 5"

definition LONG_LEARNING_DELAY :: int where
  "LONG_LEARNING_DELAY = 90"

definition ROUNDS_WITHOUT_NODES_AFTER_WHICH_TO_SLOW_DOWN :: int where
  "ROUNDS_WITHOUT_NODES_AFTER_WHICH_TO_SLOW_DOWN = 10"

definition sorted_nodes :: "learner \<Rightarrow> node list" where
  "sorted_nodes L = sort_key checksum_public_address (map snd (nodes (known_nodes L)))"

text \<open>
  \<^verbatim>\<open>update_fleet_state\<close>, with the \<^verbatim>\<open>checksum\<close> setter of \<^verbatim>\<open>FleetState\<close>, which
  also sets the nickname.
\<close>

definition fleet_checksum :: "env \<Rightarrow> learner \<Rightarrow> string" where
  "fleet_checksum E L = keccak_digest_hex E (concat (map (node_bytes E) (sorted_nodes L)))"

definition update_fleet_state :: "env \<Rightarrow> learner \<Rightarrow> learner" where
  "update_fleet_state E L =
     (let checksum_value = fleet_checksum E L;
          nick = nickname_from_seed E checksum_value
      in L\<lparr>known_nodes := (known_nodes L)
              \<lparr>checksum := Some checksum_value,
               nickname := Some (fst nick),
               nickname_metadata := Some (snd nick),
               updated := now E\<rparr>\<rparr>)"

text \<open>
  Lines 286 to 303 of \<^verbatim>\<open>remember_node\<close>: the listeners are popped, the node is stored
  under its address, the metadata is written when \<^verbatim>\<open>save_metadata\<close> is set, the
  listeners are told, and the fleet state is to be updated. The source calls
  \<^verbatim>\<open>self.update_fleet_stfate()\<close> there; \<^verbatim>\<open>Learner\<close> has no attribute of that name,
  so the lookup raises \<^verbatim>\<open>AttributeError\<close>.
\<close>

definition store_node :: "env \<Rightarrow> node \<Rightarrow> bool \<Rightarrow> learner \<Rightarrow> (error + bool) \<times> learner" where
  "store_node E n update_fleet_state' L =
     (let address = checksum_public_address n;
          listeners = learning_listeners L address;
          L1 = L\<lparr>learning_listeners := (learning_listeners L)(address := []),
                 known_nodes := (known_nodes L)
                   \<lparr>nodes := AList.update address n (nodes (known_nodes L))\<rparr>\<rparr>
      in case (if save_metadata L1 then storage_save E n else None) of
           Some e \<Rightarrow> (Inl e, L1)
         | None \<Rightarrow>
             (let L2 = L1\<lparr>listener_sets :=
                            fold (\<lambda>listener m. m(listener := insert address (m listener)))
                              listeners (listener_sets L1),
                          node_ids_to_learn_about_immediately :=
                            node_ids_to_learn_about_immediately L1 - {address}\<rparr>
              in if update_fleet_state' then (Inl AttributeError, L2)
                 else (Inr True, L2)))"

text \<open>
  Lines 272 to 284 of \<^verbatim>\<open>remember_node\<close>, then the store. \<open>already_known_node\<close> is
  the local variable of that name: it is bound only when the lookup found a record,
  and the handler of \<^verbatim>\<open>ConnectionError\<close> and \<^verbatim>\<open>ReadTimeout\<close> formats it.
\<close>

definition verify_and_store ::
  "env \<Rightarrow> node \<Rightarrow> node option \<Rightarrow> bool \<Rightarrow> bool \<Rightarrow> learner \<Rightarrow> (error + bool) \<times> node \<times> learner" where
  "verify_and_store E n already_known_node force_verification_check update_fleet_state' L =
     (case save_certificate_to_disk n (known_certificates_dir L) of
        Inl e \<Rightarrow> (Inl e, n, L)
      | Inr n1 \<Rightarrow>
          (case verify_node E n1
                  (Some (get_certificate_filepath n1 (known_certificates_dir L)))
                  (learner_federated_only L) force_verification_check of
             (Inl e, n2, _) \<Rightarrow>
               (if e = SSLError then (Inr False, n2, L)
                else if is_requests_ConnectionError e \<or> e = ReadTimeout then
                  (case already_known_node of
                     None \<Rightarrow> (Inl UnboundLocalError, n2, L)
                   | Some _ \<Rightarrow> (Inr False, n2, L))
                else (Inl e, n2, L))
           | (Inr _, n2, _) \<Rightarrow>
               (case store_node E n2 update_fleet_state' L of (r, L') \<Rightarrow> (r, n2, L'))))"

definition remember_node ::
  "env \<Rightarrow> node \<Rightarrow> bool \<Rightarrow> bool \<Rightarrow> learner \<Rightarrow> (error + bool) \<times> node \<times> learner" where
  "remember_node E n force_verification_check update_fleet_state' L =
     (if is_self E n then (Inr False, n, L)
      else
        (case map_of (nodes (known_nodes L)) (checksum_public_address n) of
           None \<Rightarrow> verify_and_store E n None force_verification_check update_fleet_state' L
         | Some already_known_node \<Rightarrow>
             (case timestamp n of
                Inl e \<Rightarrow> (Inl e, n, L)
              | Inr t \<Rightarrow>
                  (case timestamp already_known_node of
                     Inl e \<Rightarrow> (Inl e, n, L)
                   | Inr t' \<Rightarrow>
                       (if \<not> t > t' then (Inr False, n, L)
                        else verify_and_store E n (Some already_known_node)
                               force_verification_check update_fleet_state' L)))))"

section \<open>Seeding and teacher selection\<close>

text \<open>
  \<^verbatim>\<open>load_seednodes\<close>: the loop over \<^verbatim>\<open>self._seed_nodes\<close>. \<^verbatim>\<open>Ursula.from_seednode_metadata\<close>
  answers with a node, with \<^verbatim>\<open>False\<close> (\<open>None\<close> here) or with an exception.
\<close>

fun attempt_seednode_learning ::
  "env \<Rightarrow> seednode_metadata list \<Rightarrow> learner \<Rightarrow> (error + unit) \<times> learner" where
  "attempt_seednode_learning E [] L = (Inr (), L)"
| "attempt_seednode_learning E (seednode # rest) L =
     (case from_seednode_metadata E seednode of
        Inl e \<Rightarrow> (Inl e, L)
      | Inr None \<Rightarrow>
          attempt_seednode_learning E rest
            (L\<lparr>unresponsive_seed_nodes := insert seednode (unresponsive_seed_nodes L)\<rparr>)
      | Inr (Some seed_node) \<Rightarrow>
          (case remember_node E seed_node False True
                  (L\<lparr>unresponsive_seed_nodes := unresponsive_seed_nodes L - {seednode}\<rparr>) of
             (Inl e, _, L') \<Rightarrow> (Inl e, L')
           | (Inr _, _, L') \<Rightarrow> attempt_seednode_learning E rest L'))"

fun remember_stored_nodes :: "env \<Rightarrow> node list \<Rightarrow> learner \<Rightarrow> (error + unit) \<times> learner" where
  "remember_stored_nodes E [] L = (Inr (), L)"
| "remember_stored_nodes E (n # rest) L =
     (case remember_node E n False True L of
        (Inl e, _, L') \<Rightarrow> (Inl e, L')
      | (Inr _, _, L') \<Rightarrow> remember_stored_nodes E rest L')"

definition read_nodes_from_storage :: "env \<Rightarrow> learner \<Rightarrow> (error + unit) \<times> learner" where
  "read_nodes_from_storage E L = remember_stored_nodes E (storage_all E) L"

definition load_seednodes :: "env \<Rightarrow> bool \<Rightarrow> learner \<Rightarrow> (error + unit) \<times> learner" where
  "load_seednodes E read_storages L =
     (if done_seeding L then (Inr (), L)
      else
        (case attempt_seednode_learning E (seed_nodes L) L of
           (Inl e, L1) \<Rightarrow> (Inl e, L1)
         | (Inr _, L1) \<Rightarrow>
             (let L2 = L1\<lparr>done_seeding := True\<rparr>
              in if read_storages then read_nodes_from_storage E L2 else (Inr (), L2))))"

definition shuffled_known_nodes :: "env \<Rightarrow> learner \<Rightarrow> node list" where
  "shuffled_known_nodes E L = shuffle E (map snd (nodes (known_nodes L)))"

definition select_teacher_nodes :: "env \<Rightarrow> learner \<Rightarrow> (error + unit) \<times> learner" where
  "select_teacher_nodes E L =
     (let nodes_we_know_about = shuffled_known_nodes E L
      in if nodes_we_know_about = [] then (Inl NotEnoughTeachers, L)
         else (Inr (), L\<lparr>teacher_nodes := teacher_nodes L @ nodes_we_know_about\<rparr>))"

text \<open>\<^verbatim>\<open>deque.pop()\<close> takes the last element; on an empty deque it raises
  \<^verbatim>\<open>IndexError\<close>, which the source turns into \<^verbatim>\<open>NotEnoughTeachers\<close>.\<close>

definition cycle_teacher_node :: "env \<Rightarrow> learner \<Rightarrow> (error + unit) \<times> learner" where
  "cycle_teacher_node E L =
     (case (if unresponsive_seed_nodes L \<noteq> {} then load_seednodes E True L else (Inr (), L)) of
        (Inl e, L1) \<Rightarrow> (Inl e, L1)
      | (Inr _, L1) \<Rightarrow>
          (case (if teacher_nodes L1 = [] then select_teacher_nodes E L1 else (Inr (), L1)) of
             (Inl e, L2) \<Rightarrow> (Inl e, L2)
           | (Inr _, L2) \<Rightarrow>
               (if teacher_nodes L2 = [] then (Inl NotEnoughTeachers, L2)
                else (Inr (), L2\<lparr>current_teacher_node_attr := Some (last (teacher_nodes L2)),
                                 teacher_nodes := butlast (teacher_nodes L2)\<rparr>))))"

definition current_teacher_node :: "env \<Rightarrow> bool \<Rightarrow> learner \<Rightarrow> (error + node option) \<times> learner" where
  "current_teacher_node E cycle L =
     (case (if cycle then cycle_teacher_node E L else (Inr (), L)) of
        (Inl e, L1) \<Rightarrow> (Inl e, L1)
      | (Inr _, L1) \<Rightarrow>
          (case (if current_teacher_node_attr L1 = None then cycle_teacher_node E L1
                 else (Inr (), L1)) of
             (Inl e, L2) \<Rightarrow> (Inl e, L2)
           | (Inr _, L2) \<Rightarrow> (Inr (current_teacher_node_attr L2), L2)))"

section \<open>The learning round\<close>

definition adjust_learning :: "node list \<Rightarrow> learner \<Rightarrow> learner" where
  "adjust_learning node_list L =
     (if node_list \<noteq> [] then
        L\<lparr>rounds_without_new_nodes := 0, learning_task_interval := Some SHORT_LEARNING_DELAY\<rparr>
      else
        (let L1 = L\<lparr>rounds_without_new_nodes := rounds_without_new_nodes L + 1\<rparr>
         in if rounds_without_new_nodes L1 > ROUNDS_WITHOUT_NODES_AFTER_WHICH_TO_SLOW_DOWN
            then L1\<lparr>learning_task_interval := Some LONG_LEARNING_DELAY\<rparr>
            else L1))"

text \<open>
  An object built by \<^verbatim>\<open>Ursula.batch_from_bytes\<close> is new: its flags are the class
  attributes \<^verbatim>\<open>verified_stamp\<close>, \<^verbatim>\<open>verified_interface\<close> and \<^verbatim>\<open>_verified_node\<close>
  of \<^verbatim>\<open>VerifiableNode\<close>, all \<^verbatim>\<open>False\<close>.
\<close>

definition new_instance :: "node \<Rightarrow> node" where
  "new_instance n = n\<lparr>verified_stamp := False, verified_interface := False, verified_node := False\<rparr>"

text \<open>
  The body of the loop over \<^verbatim>\<open>node_list\<close> (lines 601 to 623): the check in the
  \<^verbatim>\<open>try\<close> block, whose \<^verbatim>\<open>SuspiciousActivity\<close> is logged, and then, in every case
  that did not raise something else, \<^verbatim>\<open>self.remember_node(node)\<close>. In eager mode the
  certificate path handed to \<^verbatim>\<open>verify_node\<close> is the teacher's. The class named by
  \<^verbatim>\<open>node.SuspiciousActivity\<close> is taken to be the \<^verbatim>\<open>SuspiciousActivity\<close> that this
  file imports, of which \<^verbatim>\<open>InvalidNode\<close> is a subclass.
\<close>

definition learn_candidate ::
  "env \<Rightarrow> bool \<Rightarrow> node \<Rightarrow> node \<Rightarrow> learner \<Rightarrow> (error + bool) \<times> node \<times> learner" where
  "learn_candidate E eager current_teacher n L =
     (case (if eager then
              (case verify_node E n
                      (Some (get_certificate_filepath current_teacher (known_certificates_dir L)))
                      (learner_federated_only L) False of
                 (Inl e, n1, _) \<Rightarrow> (Inl e, n1)
               | (Inr _, n1, _) \<Rightarrow> (Inr (), n1))
            else validate_metadata E (learner_federated_only L) n) of
        (Inl e, n1) \<Rightarrow>
          (if is_SuspiciousActivity e then remember_node E n1 False True L
           else (Inl e, n1, L))
      | (Inr _, n1) \<Rightarrow> remember_node E n1 False True L)"

fun learn_candidates ::
  "env \<Rightarrow> bool \<Rightarrow> node \<Rightarrow> node list \<Rightarrow> node list \<Rightarrow> learner \<Rightarrow> (error + node list) \<times> learner" where
  "learn_candidates E eager current_teacher [] new_nodes L = (Inr new_nodes, L)"
| "learn_candidates E eager current_teacher (n # rest) new_nodes L =
     (case learn_candidate E eager current_teacher n L of
        (Inl e, _, L') \<Rightarrow> (Inl e, L')
      | (Inr new, n', L') \<Rightarrow>
          learn_candidates E eager current_teacher rest
            (if new then new_nodes @ [n'] else new_nodes) L')"

fun save_certificates :: "node list \<Rightarrow> string \<Rightarrow> error + node list" where
  "save_certificates [] directory = Inr []"
| "save_certificates (n # rest) directory =
     (case save_certificate_to_disk n directory of
        Inl e \<Rightarrow> Inl e
      | Inr n' \<Rightarrow>
          (case save_certificates rest directory of
             Inl e \<Rightarrow> Inl e
           | Inr rest' \<Rightarrow> Inr (n' # rest')))"

text \<open>
  \<^verbatim>\<open>learn_from_teacher_node\<close>. The result is \<open>None\<close> for the two bare
  \<^verbatim>\<open>return\<close> statements and the list of new nodes otherwise.
\<close>

definition learn_from_teacher_node ::
  "env \<Rightarrow> bool \<Rightarrow> learner \<Rightarrow> (error + node list option) \<times> learner" where
  "learn_from_teacher_node E eager L0 =
     (let L = L0\<lparr>learning_round := learning_round L0 + 1\<rparr> in
      case current_teacher_node E False L of
        (Inl e, L1) \<Rightarrow> (if e = NotEnoughTeachers then (Inr None, L1) else (Inl e, L1))
      | (Inr None, L1) \<Rightarrow> (Inl AttributeError, L1)
      | (Inr (Some current_teacher), L1) \<Rightarrow>
          (case get_nodes_via_rest E (rest_host current_teacher, rest_port current_teacher)
                  (node_ids_to_learn_about_immediately L1) (self_is_verifiable_node E)
                  (get_certificate_filepath current_teacher (known_certificates_dir L1)) of
             Inl e \<Rightarrow>
               (if is_requests_ConnectionError e then
                  (case cycle_teacher_node E L1 of
                     (Inl e', L2) \<Rightarrow> (Inl e', L2)
                   | (Inr _, L2) \<Rightarrow> (Inr None, L2))
                else (Inl e, L1))
           | Inr (status_code, content) \<Rightarrow>
               (if status_code \<noteq> 200 then (Inl RuntimeError, L1)
                else
                  (case batch_from_bytes E content (learner_federated_only L1) of
                     Inl e \<Rightarrow> (Inl e, L1)
                   | Inr parsed \<Rightarrow>
                       (case learn_candidates E eager current_teacher
                               (map new_instance parsed) [] L1 of
                          (Inl e, L2) \<Rightarrow> (Inl e, L2)
                        | (Inr new_nodes, L2) \<Rightarrow>
                            (case cycle_teacher_node E (adjust_learning new_nodes L2) of
                               (Inl e, L4) \<Rightarrow> (Inl e, L4)
                             | (Inr _, L4) \<Rightarrow>
                                 (if new_nodes \<noteq> [] \<and> known_certificates_dir L4 \<noteq> [] then
                                    (case save_certificates new_nodes (known_certificates_dir L4) of
                                       Inl e \<Rightarrow> (Inl e, L4)
                                     | Inr new_nodes' \<Rightarrow> (Inr (Some new_nodes'), L4))
                                  else (Inr (Some new_nodes), L4))))))))"

section \<open>Crashes and the blocking wait\<close>







section \<open>The shape of a fleet\<close>

text \<open>
  What \<^verbatim>\<open>remember_node\<close> keeps true of the \<^verbatim>\<open>dict\<close>: a key occurs once, and a node
  is stored under its own checksum address.
\<close>

definition fleet_invariant :: "learner \<Rightarrow> bool" where
  "fleet_invariant L =
     (distinct (map fst (nodes (known_nodes L))) \<and>
      list_all (\<lambda>(a, n). checksum_public_address n = a) (nodes (known_nodes L)))"

section \<open>A node's live answer\<close>

text \<open>
  The answer that \<^verbatim>\<open>node_information\<close> gives for a node, asked with the given
  certificate path, has status 200 and carries the record's own verifying key, encrypting
  key, canonical address and identity evidence.
\<close>

definition live_response_matches :: "env \<Rightarrow> node \<Rightarrow> string option \<Rightarrow> bool" where
  "live_response_matches E n path =
     (case node_information E (rest_host n) (rest_port n) path of
        Inl e \<Rightarrow> False
      | Inr (status_code, info) \<Rightarrow>
          status_code = 200 \<and>
          info_verifying_key info = verifying_key n \<and>
          info_encrypting_key info = encrypting_key n \<and>
          info_public_address info = canonical_public_address n \<and>
          info_identity_evidence info = evidence_of_decentralized_identity n)"

section \<open>A small fleet for the examples\<close>

text \<open>
  Nodes named by a short string, and collaborators that accept the signature
  \<open>''signed''\<close>, recover the address that the evidence spells, and answer for every host
  with that host's own description, except that \<open>''ghost''\<close> is unreachable and
  \<open>''mallory''\<close> answers with the keys of somebody else. The teacher's answer parses
  to the batch given.
\<close>

definition example_node :: "string \<Rightarrow> int \<Rightarrow> node" where
  "example_node name t =
     \<lparr>checksum_public_address = ''0x'' @ name,
      canonical_public_address = name,
      verifying_key = ''vk-'' @ name,
      encrypting_key = ''ek-'' @ name,
      evidence_of_decentralized_identity = Some (''0x'' @ name),
      interface_signature_object = Some ''signed'',
      timestamp_attr = Some t,
      rest_host = name,
      rest_port = 9151,
      certificate_common_name = name,
      certificate_filepath = [],
      federated_only = False,
      verified_stamp = False,
      verified_interface = False,
      verified_node = False\<rparr>"

definition example_info :: "string \<Rightarrow> node_info" where
  "example_info name =
     \<lparr>info_identity_evidence = Some (''0x'' @ name),
      info_verifying_key = ''vk-'' @ name,
      info_encrypting_key = ''ek-'' @ name,
      info_public_address = name\<rparr>"

definition example_env :: "node list \<Rightarrow> env" where
  "example_env batch =
     \<lparr>is_self = (\<lambda>n. False),
      self_is_verifiable_node = False,
      signature_verify = (\<lambda>s m k. s = ''signed''),
      recover_address = (\<lambda>signature_bytes stamp. signature_bytes),
      node_information = (\<lambda>host port cert.
         if host = ''ghost'' then Inl ConnectionError
         else if host = ''mallory'' then Inr (200, example_info ''eve'')
         else Inr (200, example_info host)),
      get_nodes_via_rest = (\<lambda>url wanted announce cert. Inr (200, ''batch'')),
      batch_from_bytes = (\<lambda>content fed. Inr batch),
      from_seednode_metadata = (\<lambda>seednode. Inr None),
      storage_all = [],
      storage_save = (\<lambda>n. None),
      node_bytes = checksum_public_address,
      keccak_digest_hex = (\<lambda>b. b),
      nickname_from_seed = (\<lambda>c. (c, c)),
      shuffle = (\<lambda>ns. ns),
      now = 0\<rparr>"

definition example_learner :: "(string \<times> node) list \<Rightarrow> learner" where
  "example_learner known =
     \<lparr>known_nodes = \<lparr>nodes = known, checksum = None, nickname = None,
                      nickname_metadata = None, updated = 0\<rparr>,
      learner_federated_only = False,
      save_metadata = False,
      known_certificates_dir = ''certs'',
      learning_listeners = (\<lambda>a. []),
      listener_sets = (\<lambda>l. {}),
      node_ids_to_learn_about_immediately = {},
      teacher_nodes = [],
      current_teacher_node_attr = None,
      learning_task_running = True,
      learning_task_interval = Some SHORT_LEARNING_DELAY,
      learning_round = 0,
      rounds_without_new_nodes = 0,
      seed_nodes = [],
      unresponsive_seed_nodes = {},
      done_seeding = True,
      crashed = None\<rparr>"





section \<open>Facts about verification\<close>

lemma verify_node_changes_flags_only:
  "verify_node E n p a f = (r, n', reqs) \<Longrightarrow>
   n' = n\<lparr>verified_stamp := verified_stamp n', verified_interface := verified_interface n',
          verified_node := verified_node n'\<rparr>"
  by (auto simp: verify_node_def validate_metadata_def interface_is_valid_def stamp_is_valid_def
        Let_def split: if_splits sum.splits prod.splits)

lemma verify_node_success_verified:
  "verify_node E n p a f = (Inr r, n', reqs) \<Longrightarrow> verified_node n'"
  by (auto simp: verify_node_def Let_def split: if_splits sum.splits prod.splits)

lemma save_certificate_fields:
  "save_certificate_to_disk n d = Inr n1 \<Longrightarrow>
     n1 = n\<lparr>certificate_filepath := get_certificate_filepath n d\<rparr>"
  by (auto simp: save_certificate_to_disk_def split: if_splits)

lemma store_node_nodes:
  "store_node E n ufs L = (r, L') \<Longrightarrow>
     nodes (known_nodes L') = AList.update (checksum_public_address n) n (nodes (known_nodes L))"
  by (auto simp: store_node_def Let_def split: if_splits option.splits)

text \<open>Evaluation of the example fleet.\<close>

lemmas example_defs =
  example_env_def example_node_def example_learner_def example_info_def

lemmas node_defs =
  verify_node_def validate_metadata_def interface_is_valid_def stamp_is_valid_def
  stamp_has_valid_wallet_signature_def timestamp_def interface_signature_def
  save_certificate_to_disk_def get_certificate_filepath_def certificate_filename_def
  path_join_def info_matches_def

lemma example_save:
  "save_certificate_to_disk (example_node name t) ''certs'' =
     (Inr ((example_node name t)\<lparr>certificate_filepath := ''certs/0x'' @ name @ ''.pem''\<rparr>))"
  by (simp add: node_defs example_defs)

lemma example_verify:
  assumes "name \<noteq> ''ghost''" "name \<noteq> ''mallory''"
  shows "verify_node (example_env batch)
      ((example_node name t)\<lparr>certificate_filepath := c\<rparr>) p False False =
     (Inr None,
      (example_node name t)\<lparr>certificate_filepath := c,
         verified_stamp := True, verified_interface := True, verified_node := True\<rparr>,
      [(name, 9151, p)])"
  using assms by (simp add: node_defs example_defs)


section \<open>Stale updates\<close>

text \<open>
  C1. A learner that already stores a record \<open>O'\<close> under the address of \<open>N\<close> answers
  \<^verbatim>\<open>remember_node(N)\<close> with \<^verbatim>\<open>False\<close> and stays as it is when the timestamp of \<open>N\<close>
  is not greater than that of \<open>O'\<close>. When it is greater (and \<open>N\<close> is not the learner
  itself), and the certificate check and \<^verbatim>\<open>verify_node\<close> succeed, the record stored
  under that address afterwards is \<open>N\<close> as verification left it: \<open>N\<close> with its
  certificate path and its flags set.
\<close>

theorem remember_node_stale_update:
  assumes known: "map_of (nodes (known_nodes L)) (checksum_public_address N) = Some O'"
      and tn: "timestamp N = Inr tn" and tk: "timestamp O' = Inr tk"
  shows "(tn \<le> tk \<longrightarrow> remember_node E N force ufs L = (Inr False, N, L)) \<and>
         (tn > tk \<and> \<not> is_self E N \<and>
          save_certificate_to_disk N (known_certificates_dir L) = Inr Ns \<and>
          verify_node E Ns (Some (get_certificate_filepath Ns (known_certificates_dir L)))
            (learner_federated_only L) force = (Inr r, Nv, reqs) \<longrightarrow>
          (case remember_node E N force ufs L of (res, N', L') \<Rightarrow>
             N' = Nv \<and>
             nodes (known_nodes L') =
               AList.update (checksum_public_address N) Nv (nodes (known_nodes L)) \<and>
             map_of (nodes (known_nodes L')) (checksum_public_address N) = Some Nv \<and>
             Nv = N\<lparr>certificate_filepath :=
                        get_certificate_filepath N (known_certificates_dir L),
                    verified_stamp := verified_stamp Nv,
                    verified_interface := verified_interface Nv,
                    verified_node := True\<rparr>))"
proof (intro conjI impI)
  assume "tn \<le> tk"
  then show "remember_node E N force ufs L = (Inr False, N, L)"
    using known tn tk by (simp add: remember_node_def)
next
  assume h: "tn > tk \<and> \<not> is_self E N \<and>
          save_certificate_to_disk N (known_certificates_dir L) = Inr Ns \<and>
          verify_node E Ns (Some (get_certificate_filepath Ns (known_certificates_dir L)))
            (learner_federated_only L) force = (Inr r, Nv, reqs)"
  obtain res L' where st: "store_node E Nv ufs L = (res, L')"
    by (cases "store_node E Nv ufs L")
  have n1: "Ns = N\<lparr>certificate_filepath :=
                     get_certificate_filepath N (known_certificates_dir L)\<rparr>"
    using h save_certificate_fields by blast
  have n2: "Nv = Ns\<lparr>verified_stamp := verified_stamp Nv,
                     verified_interface := verified_interface Nv,
                     verified_node := verified_node Nv\<rparr>"
    using h verify_node_changes_flags_only by blast
  have v: "verified_node Nv"
    using h verify_node_success_verified by blast
  have "checksum_public_address Nv = checksum_public_address Ns"
    by (subst n2) simp
  then have addr: "checksum_public_address Nv = checksum_public_address N"
    by (simp add: n1)
  have rn: "remember_node E N force ufs L = (res, Nv, L')"
    using h known tn tk st by (simp add: remember_node_def verify_and_store_def)
  have upd: "nodes (known_nodes L') =
               AList.update (checksum_public_address N) Nv (nodes (known_nodes L))"
    using store_node_nodes[OF st] addr by simp
  show "case remember_node E N force ufs L of (res, N', L') \<Rightarrow>
             N' = Nv \<and>
             nodes (known_nodes L') =
               AList.update (checksum_public_address N) Nv (nodes (known_nodes L)) \<and>
             map_of (nodes (known_nodes L')) (checksum_public_address N) = Some Nv \<and>
             Nv = N\<lparr>certificate_filepath :=
                        get_certificate_filepath N (known_certificates_dir L),
                    verified_stamp := verified_stamp Nv,
                    verified_interface := verified_interface Nv,
                    verified_node := True\<rparr>"
    using rn upd n1 n2 v by (simp add: update_conv')
qed

theorem remember_node_stale_update_witness:
  "remember_node (example_env []) (example_node ''a'' 7) False True
       (example_learner [(''0xa'', example_node ''a'' 7)]) =
     (Inr False, example_node ''a'' 7, example_learner [(''0xa'', example_node ''a'' 7)]) \<and>
   map_of (nodes (known_nodes (snd (snd
       (remember_node (example_env []) (example_node ''a'' 8) False True
          (example_learner [(''0xa'', example_node ''a'' 7)])))))) ''0xa'' =
     Some ((example_node ''a'' 8)\<lparr>certificate_filepath := ''certs/0xa.pem'',
             verified_stamp := True, verified_interface := True, verified_node := True\<rparr>)"
proof -
  let ?L = "example_learner [(''0xa'', example_node ''a'' 7)]"
  let ?E = "example_env []"
  let ?N1 = "(example_node ''a'' 8)\<lparr>certificate_filepath := ''certs/0xa.pem''\<rparr>"
  let ?N2 = "(example_node ''a'' 8)\<lparr>certificate_filepath := ''certs/0xa.pem'',
             verified_stamp := True, verified_interface := True, verified_node := True\<rparr>"
  let ?reqs = "[(''a'', 9151 :: nat, Some (get_certificate_filepath ?N1 ''certs''))]"
  have a7: "checksum_public_address (example_node ''a'' 7) = ''0xa''"
    and a8: "checksum_public_address (example_node ''a'' 8) = ''0xa''"
    by (simp_all add: example_defs)
  have known7: "map_of (nodes (known_nodes ?L)) (checksum_public_address (example_node ''a'' 7))
      = Some (example_node ''a'' 7)"
    and known8: "map_of (nodes (known_nodes ?L)) (checksum_public_address (example_node ''a'' 8))
      = Some (example_node ''a'' 7)"
    by (simp_all add: a7 a8) (simp_all add: example_learner_def)
  have t7: "timestamp (example_node ''a'' 7) = Inr 7"
    and t8: "timestamp (example_node ''a'' 8) = Inr 8"
    by (simp_all add: timestamp_def example_defs)
  have dir: "known_certificates_dir ?L = ''certs''" and fed: "learner_federated_only ?L = False"
    by (simp_all add: example_learner_def)
  have notself: "\<not> is_self ?E (example_node ''a'' 8)"
    by (simp add: example_env_def)
  have sv: "save_certificate_to_disk (example_node ''a'' 8) (known_certificates_dir ?L) = Inr ?N1"
    unfolding dir using example_save[of "''a''" 8] by simp
  have vf: "verify_node ?E ?N1 (Some (get_certificate_filepath ?N1 (known_certificates_dir ?L)))
              (learner_federated_only ?L) False
            = (Inr None, ?N2, ?reqs)"
    unfolding dir fed by (rule example_verify) simp_all
  have stale: "remember_node ?E (example_node ''a'' 7) False True ?L
      = (Inr False, example_node ''a'' 7, ?L)"
    using remember_node_stale_update[OF known7 t7 t7, where E = ?E and force = False and ufs = True]
    by simp
  have ante: "(8::int) > 7 \<and> \<not> is_self ?E (example_node ''a'' 8) \<and>
      save_certificate_to_disk (example_node ''a'' 8) (known_certificates_dir ?L) = Inr ?N1 \<and>
      verify_node ?E ?N1 (Some (get_certificate_filepath ?N1 (known_certificates_dir ?L)))
        (learner_federated_only ?L) False = (Inr None, ?N2, ?reqs)"
    by (intro conjI notself sv vf) simp
  obtain res N' L' where
    rn: "remember_node ?E (example_node ''a'' 8) False True ?L = (res, N', L')"
    by (cases "remember_node ?E (example_node ''a'' 8) False True ?L")
  have "case remember_node ?E (example_node ''a'' 8) False True ?L of (res, N', L') \<Rightarrow>
          N' = ?N2 \<and>
          nodes (known_nodes L') =
            AList.update (checksum_public_address (example_node ''a'' 8)) ?N2
              (nodes (known_nodes ?L)) \<and>
          map_of (nodes (known_nodes L')) (checksum_public_address (example_node ''a'' 8))
            = Some ?N2 \<and>
          ?N2 = (example_node ''a'' 8)\<lparr>certificate_filepath :=
                     get_certificate_filepath (example_node ''a'' 8) (known_certificates_dir ?L),
                   verified_stamp := verified_stamp ?N2,
                   verified_interface := verified_interface ?N2,
                   verified_node := True\<rparr>"
    by (rule remember_node_stale_update[OF known8 t8 t7, THEN conjunct2, THEN mp, OF ante])
  then have "map_of (nodes (known_nodes L')) (checksum_public_address (example_node ''a'' 8))
      = Some ?N2"
    unfolding rn prod.case by (elim conjE)
  then have fresh: "map_of (nodes (known_nodes L')) ''0xa'' = Some ?N2"
    by (simp only: a8)
  show ?thesis
    using stale fresh rn by simp
qed

section \<open>Idempotent verification\<close>

text \<open>
  C8. On a node whose \<^verbatim>\<open>_verified_node\<close> flag is set, \<^verbatim>\<open>verify_node\<close> without
  \<^verbatim>\<open>force\<close> returns \<^verbatim>\<open>True\<close>, leaves the node as it is and sends no
  \<^verbatim>\<open>node_information\<close> request.
\<close>

theorem verify_node_idempotent:
  "verified_node n \<Longrightarrow>
     verify_node E n certificate_filepath' accept_federated_only False = (Inr (Some True), n, [])"
  by (simp add: verify_node_def)

theorem verify_node_idempotent_witness:
  "verified_node ((example_node ''a'' 1)\<lparr>verified_node := True\<rparr>) \<and>
   verify_node (example_env []) ((example_node ''a'' 1)\<lparr>verified_node := True\<rparr>) None False False =
     (Inr (Some True), (example_node ''a'' 1)\<lparr>verified_node := True\<rparr>, [])"
  using verify_node_idempotent[of "(example_node ''a'' 1)\<lparr>verified_node := True\<rparr>"
      "example_env []" None False]
  by simp

section \<open>The checksum of a fleet\<close>

text \<open>
  Python's \<^verbatim>\<open>sorted\<close> is stable, as \<^const>\<open>sort_key\<close> is. Where the keys of the
  elements differ, the sorted list depends on the set of elements alone.
\<close>

lemma sort_key_unique:
  fixes f :: "'a \<Rightarrow> 'b::linorder"
  assumes "distinct (map f xs)" "distinct (map f ys)" "set xs = set ys"
  shows "sort_key f xs = sort_key f ys"
proof -
  have inj: "inj_on f (set xs \<union> set ys)"
    using assms by (simp add: distinct_map)
  have d1: "distinct (map f (sort_key f xs))"
    using assms(1) by (metis distinct_map distinct_sort set_sort)
  have d2: "distinct (map f (sort_key f ys))"
    using assms(2) by (metis distinct_map distinct_sort set_sort)
  have "map f (sort_key f xs) = map f (sort_key f ys)"
    by (rule sorted_distinct_set_unique) (use d1 d2 assms(3) in \<open>simp_all\<close>)
  then show ?thesis
    using inj by (metis inj_on_map_eq_map set_sort)
qed

lemma invariant_values:
  assumes "fleet_invariant L"
  shows "map checksum_public_address (map snd (nodes (known_nodes L))) =
         map fst (nodes (known_nodes L))"
  using assms unfolding fleet_invariant_def
  by (auto simp: list_all_iff)

lemma sorted_nodes_membership:
  assumes "fleet_invariant L1" "fleet_invariant L2"
    and "map_of (nodes (known_nodes L1)) = map_of (nodes (known_nodes L2))"
  shows "sorted_nodes L1 = sorted_nodes L2"
proof -
  have s: "set (nodes (known_nodes L1)) = set (nodes (known_nodes L2))"
    using assms by (simp add: fleet_invariant_def map_of_inject_set)
  show ?thesis unfolding sorted_nodes_def
  proof (rule sort_key_unique)
    show "distinct (map checksum_public_address (map snd (nodes (known_nodes L1))))"
      using assms(1) invariant_values fleet_invariant_def by metis
    show "distinct (map checksum_public_address (map snd (nodes (known_nodes L2))))"
      using assms(2) invariant_values fleet_invariant_def by metis
    show "set (map snd (nodes (known_nodes L1))) = set (map snd (nodes (known_nodes L2)))"
      using s by simp
  qed
qed

lemma set_update_subset:
  "set (AList.update k v al) \<subseteq> insert (k, v) (set al)"
  by (induction al) auto

lemma store_node_invariant:
  assumes "fleet_invariant L" "store_node E n ufs L = (r, L')"
  shows "fleet_invariant L'"
proof -
  have "nodes (known_nodes L') =
          AList.update (checksum_public_address n) n (nodes (known_nodes L))"
    using assms(2) by (rule store_node_nodes)
  then show ?thesis
    using assms(1) set_update_subset[of "checksum_public_address n" n "nodes (known_nodes L)"]
    unfolding fleet_invariant_def
    by (auto simp: distinct_update list_all_iff)
qed

lemma remember_node_invariant:
  assumes "fleet_invariant L" "remember_node E n f ufs L = (r, n', L')"
  shows "fleet_invariant L'"
  using assms
  by (auto simp: remember_node_def verify_and_store_def
      split: if_splits option.splits sum.splits prod.splits dest: store_node_invariant)

text \<open>
  C5. Two learners whose fleets hold the same records under the same addresses, in
  whatever order they were remembered, get the same checksum (and the same nickname)
  from \<^verbatim>\<open>update_fleet_state\<close>.
\<close>

theorem checksum_determinism:
  assumes "fleet_invariant L1" "fleet_invariant L2"
    and "map_of (nodes (known_nodes L1)) = map_of (nodes (known_nodes L2))"
  shows "fleet_checksum E L1 = fleet_checksum E L2 \<and>
         checksum (known_nodes (update_fleet_state E L1)) =
           checksum (known_nodes (update_fleet_state E L2)) \<and>
         nickname (known_nodes (update_fleet_state E L1)) =
           nickname (known_nodes (update_fleet_state E L2))"
  using sorted_nodes_membership[OF assms]
  by (simp add: update_fleet_state_def fleet_checksum_def Let_def)

theorem checksum_determinism_witness:
  "nodes (known_nodes (example_learner [(''0xa'', example_node ''a'' 1), (''0xb'', example_node ''b'' 2)])) \<noteq>
   nodes (known_nodes (example_learner [(''0xb'', example_node ''b'' 2), (''0xa'', example_node ''a'' 1)])) \<and>
   checksum (known_nodes (update_fleet_state (example_env [])
      (example_learner [(''0xa'', example_node ''a'' 1), (''0xb'', example_node ''b'' 2)]))) =
   checksum (known_nodes (update_fleet_state (example_env [])
      (example_learner [(''0xb'', example_node ''b'' 2), (''0xa'', example_node ''a'' 1)]))) \<and>
   checksum (known_nodes (update_fleet_state (example_env [])
      (example_learner [(''0xb'', example_node ''b'' 2), (''0xa'', example_node ''a'' 1)]))) =
   Some ''0xa0xb''"
proof -
  let ?L1 = "example_learner [(''0xa'', example_node ''a'' 1), (''0xb'', example_node ''b'' 2)]"
  let ?L2 = "example_learner [(''0xb'', example_node ''b'' 2), (''0xa'', example_node ''a'' 1)]"
  have i1: "fleet_invariant ?L1" and i2: "fleet_invariant ?L2"
    by (simp_all add: fleet_invariant_def example_learner_def example_node_def)
  have m: "map_of (nodes (known_nodes ?L1)) = map_of (nodes (known_nodes ?L2))"
    by (rule ext) (simp add: example_learner_def)
  have d: "nodes (known_nodes ?L1) \<noteq> nodes (known_nodes ?L2)"
    by (simp add: example_learner_def)
  have c: "checksum (known_nodes (update_fleet_state (example_env []) ?L2)) = Some ''0xa0xb''"
    by code_simp
  show ?thesis
    using checksum_determinism[OF i1 i2 m, of "example_env []"] d c by simp
qed

section \<open>What \<^verbatim>\<open>remember_node\<close> answers\<close>

lemma remember_node_True_stored:
  assumes "remember_node E n force ufs L = (Inr True, n', L')"
  shows "map_of (nodes (known_nodes L')) (checksum_public_address n') = Some n' \<and> \<not> ufs"
  using assms
  by (auto simp: remember_node_def verify_and_store_def store_node_def Let_def update_conv'
      split: if_splits option.splits sum.splits prod.splits)

lemma remember_node_False_unchanged:
  assumes "remember_node E n force ufs L = (Inr False, n', L')"
  shows "L' = L"
  using assms
  by (auto simp: remember_node_def verify_and_store_def store_node_def Let_def
      split: if_splits option.splits sum.splits prod.splits)

lemma remember_node_keeps_checksum:
  assumes "remember_node E n force ufs L = (r, n', L')"
  shows "checksum (known_nodes L') = checksum (known_nodes L) \<and>
         nickname (known_nodes L') = nickname (known_nodes L)"
  using assms
  by (auto simp: remember_node_def verify_and_store_def store_node_def Let_def
      split: if_splits option.splits sum.splits prod.splits)


text \<open>
  C2. A learner that knows nobody remembers a node that verifies, with
  \<^verbatim>\<open>update_fleet_state\<close> left at its default \<^verbatim>\<open>True\<close>. The node is stored; the call
  then ends in \<^verbatim>\<open>AttributeError\<close>, and checksum and nickname are still
  \<^verbatim>\<open>NO_KNOWN_NODES\<close>, where \<^verbatim>\<open>update_fleet_state\<close> would have set them.
\<close>

theorem remember_node_leaves_checksum_stale:
  "(case remember_node (example_env []) (example_node ''a'' 1) False True (example_learner []) of
      (r, n', L') \<Rightarrow>
        (r, map fst (nodes (known_nodes L')), checksum (known_nodes L'), nickname (known_nodes L'),
         checksum (known_nodes (update_fleet_state (example_env []) L')))) =
   (Inl AttributeError, [''0xa''], None, None, Some ''0xa'')"
  by (simp add: remember_node_def verify_and_store_def store_node_def update_fleet_state_def
      fleet_checksum_def sorted_nodes_def node_defs example_defs Let_def)

text \<open>
  C10. The two outcomes of \<^verbatim>\<open>remember_node\<close> that are neither "stored and
  \<^verbatim>\<open>True\<close>" nor "not stored and \<^verbatim>\<open>False\<close>". With \<^verbatim>\<open>update_fleet_state\<close> at its
  default, a new node that verifies is stored and the call raises \<^verbatim>\<open>AttributeError\<close>.
  A node that is not known yet and cannot be reached makes the handler of
  \<^verbatim>\<open>ConnectionError\<close> raise \<^verbatim>\<open>UnboundLocalError\<close>; the fleet stays as it was.
\<close>

theorem remember_node_raises_instead_of_answering:
  "(case remember_node (example_env []) (example_node ''a'' 1) False True (example_learner []) of
      (r, n', L') \<Rightarrow> (r, map fst (nodes (known_nodes L')))) =
     (Inl AttributeError, [''0xa'']) \<and>
   (case remember_node (example_env []) (example_node ''ghost'' 1) False False (example_learner []) of
      (r, n', L') \<Rightarrow> (r, L')) =
     (Inl UnboundLocalError, example_learner [])"
  by (simp add: remember_node_def verify_and_store_def store_node_def
      is_requests_ConnectionError_def node_defs example_defs Let_def)

section \<open>Slowing down\<close>

lemma adjust_learning_new_nodes:
  "node_list \<noteq> [] \<Longrightarrow>
     rounds_without_new_nodes (adjust_learning node_list L) = 0 \<and>
     learning_task_interval (adjust_learning node_list L) = Some SHORT_LEARNING_DELAY"
  by (simp add: adjust_learning_def)

lemma adjust_learning_empty_rounds:
  "rounds_without_new_nodes ((adjust_learning [] ^^ k) L) = rounds_without_new_nodes L + int k \<and>
   learning_task_interval ((adjust_learning [] ^^ k) L) =
     (if k \<noteq> 0 \<and> rounds_without_new_nodes L + int k > ROUNDS_WITHOUT_NODES_AFTER_WHICH_TO_SLOW_DOWN
      then Some LONG_LEARNING_DELAY else learning_task_interval L)"
proof (induction k)
  case 0
  then show ?case by simp
next
  case (Suc k)
  then show ?case
    by (auto simp: adjust_learning_def Let_def ROUNDS_WITHOUT_NODES_AFTER_WHICH_TO_SLOW_DOWN_def)
qed

text \<open>
  C6. A learner that polls at the short delay and has counted no empty round goes
  through ten rounds without new nodes, ten being
  \<^verbatim>\<open>_ROUNDS_WITHOUT_NODES_AFTER_WHICH_TO_SLOW_DOWN\<close>. Its counter then stands at ten
  and its interval is still the short delay; the long delay is set by the eleventh
  such round.
\<close>

theorem adjust_learning_slows_down_one_round_late:
  "rounds_without_new_nodes ((adjust_learning [] ^^ 10) (example_learner [])) =
     ROUNDS_WITHOUT_NODES_AFTER_WHICH_TO_SLOW_DOWN \<and>
   learning_task_interval ((adjust_learning [] ^^ 10) (example_learner [])) =
     Some SHORT_LEARNING_DELAY \<and>
   learning_task_interval ((adjust_learning [] ^^ 11) (example_learner [])) =
     Some LONG_LEARNING_DELAY"
proof -
  have c: "rounds_without_new_nodes (example_learner []) = 0"
    and i: "learning_task_interval (example_learner []) = Some SHORT_LEARNING_DELAY"
    by (simp_all add: example_learner_def)
  show ?thesis
    using adjust_learning_empty_rounds[of 10 "example_learner []"]
      adjust_learning_empty_rounds[of 11 "example_learner []"]
    by (simp add: c i ROUNDS_WITHOUT_NODES_AFTER_WHICH_TO_SLOW_DOWN_def)
qed

section \<open>Counting rounds\<close>

lemma remember_node_learning_round:
  "remember_node E n force ufs L = (r, n', L') \<Longrightarrow> learning_round L' = learning_round L"
  by (auto simp: remember_node_def verify_and_store_def store_node_def Let_def
      split: if_splits option.splits sum.splits prod.splits)

lemma attempt_seednode_learning_round:
  "attempt_seednode_learning E seeds L = (r, L') \<Longrightarrow> learning_round L' = learning_round L"
proof (induction seeds arbitrary: L)
  case Nil
  then show ?case by simp
next
  case (Cons seednode rest)
  then show ?case
    by (fastforce split: sum.splits option.splits prod.splits
        dest: remember_node_learning_round)
qed

lemma remember_stored_nodes_learning_round:
  "remember_stored_nodes E ns L = (r, L') \<Longrightarrow> learning_round L' = learning_round L"
proof (induction ns arbitrary: L)
  case Nil
  then show ?case by simp
next
  case (Cons n rest)
  then show ?case
    by (fastforce split: sum.splits prod.splits dest: remember_node_learning_round)
qed

lemma load_seednodes_learning_round:
  "load_seednodes E read_storages L = (r, L') \<Longrightarrow> learning_round L' = learning_round L"
  by (auto simp: load_seednodes_def read_nodes_from_storage_def Let_def
      split: if_splits sum.splits prod.splits
      dest!: attempt_seednode_learning_round remember_stored_nodes_learning_round)

lemma select_teacher_nodes_learning_round:
  "select_teacher_nodes E L = (r, L') \<Longrightarrow> learning_round L' = learning_round L"
  by (auto simp: select_teacher_nodes_def Let_def split: if_splits)

lemma cycle_teacher_node_learning_round:
  "cycle_teacher_node E L = (r, L') \<Longrightarrow> learning_round L' = learning_round L"
  by (auto simp: cycle_teacher_node_def split: if_splits sum.splits prod.splits
      dest!: load_seednodes_learning_round select_teacher_nodes_learning_round)

lemma current_teacher_node_learning_round:
  "current_teacher_node E cycle L = (r, L') \<Longrightarrow> learning_round L' = learning_round L"
  by (auto simp: current_teacher_node_def split: if_splits sum.splits prod.splits
      dest!: cycle_teacher_node_learning_round)

lemma learn_candidate_learning_round:
  "learn_candidate E eager t n L = (r, n', L') \<Longrightarrow> learning_round L' = learning_round L"
  by (auto simp: learn_candidate_def split: if_splits sum.splits prod.splits
      dest: remember_node_learning_round)

lemma learn_candidates_learning_round:
  "learn_candidates E eager t ns new_nodes L = (r, L') \<Longrightarrow> learning_round L' = learning_round L"
proof (induction ns arbitrary: new_nodes L)
  case Nil
  then show ?case by simp
next
  case (Cons n rest)
  then show ?case
    by (fastforce split: sum.splits prod.splits dest: learn_candidate_learning_round)
qed

lemma adjust_learning_learning_round:
  "learning_round (adjust_learning node_list L) = learning_round L"
  by (simp add: adjust_learning_def Let_def)

text \<open>
  C9. Whatever a call of \<^verbatim>\<open>learn_from_teacher_node\<close> ends in (a list of new nodes,
  a bare \<^verbatim>\<open>return\<close> after \<^verbatim>\<open>NotEnoughTeachers\<close> or after an unresponsive teacher, or
  an exception), the learner it leaves has \<^verbatim>\<open>_learning_round\<close> greater by exactly one.
\<close>

theorem learn_from_teacher_node_counts_round:
  "learning_round (snd (learn_from_teacher_node E eager L)) = learning_round L + 1"
proof -
  obtain r L' where res: "learn_from_teacher_node E eager L = (r, L')"
    by (cases "learn_from_teacher_node E eager L")
  let ?L = "L\<lparr>learning_round := learning_round L + 1\<rparr>"
  have start: "learning_round ?L = learning_round L + 1"
    by simp
  have "learning_round L' = learning_round ?L"
    using res unfolding learn_from_teacher_node_def Let_def
    by (auto split: if_splits sum.splits prod.splits option.splits
        dest!: current_teacher_node_learning_round cycle_teacher_node_learning_round
          learn_candidates_learning_round
        simp: adjust_learning_learning_round)
  then show ?thesis
    using res start by simp
qed

text \<open>
  The round counter on a learner that knows nobody: the round ends at teacher selection,
  returns nothing, and has been counted.
\<close>

theorem learn_from_teacher_node_counts_round_witness:
  "fst (learn_from_teacher_node (example_env []) True (example_learner [])) = Inr None \<and>
   learning_round (example_learner []) = 0 \<and>
   learning_round (snd (learn_from_teacher_node (example_env []) True (example_learner []))) = 1"
proof -
  have "fst (learn_from_teacher_node (example_env []) True (example_learner [])) = Inr None"
    by (simp add: learn_from_teacher_node_def current_teacher_node_def cycle_teacher_node_def
        select_teacher_nodes_def shuffled_known_nodes_def example_defs Let_def)
  moreover have "learning_round (example_learner []) = 0"
    by (simp add: example_learner_def)
  ultimately show ?thesis
    using learn_from_teacher_node_counts_round[of "example_env []" True "example_learner []"]
    by simp
qed

section \<open>Impersonation\<close>


lemma info_matches_flags [simp]:
  "info_matches i (n\<lparr>verified_stamp := a\<rparr>) = info_matches i n"
  "info_matches i (n\<lparr>verified_interface := b\<rparr>) = info_matches i n"
  "info_matches i (n\<lparr>verified_node := c\<rparr>) = info_matches i n"
  "info_matches i (n\<lparr>certificate_filepath := d\<rparr>) = info_matches i n"
  by (simp_all add: info_matches_def)

lemma live_response_matches_flags [simp]:
  "live_response_matches E (n\<lparr>verified_stamp := a\<rparr>) p = live_response_matches E n p"
  "live_response_matches E (n\<lparr>verified_interface := b\<rparr>) p = live_response_matches E n p"
  "live_response_matches E (n\<lparr>verified_node := c\<rparr>) p = live_response_matches E n p"
  "live_response_matches E (n\<lparr>certificate_filepath := d\<rparr>) p = live_response_matches E n p"
  by (simp_all add: live_response_matches_def split: sum.splits)

lemma get_certificate_filepath_flags [simp]:
  "get_certificate_filepath (n\<lparr>verified_stamp := a\<rparr>) dir = get_certificate_filepath n dir"
  "get_certificate_filepath (n\<lparr>verified_interface := b\<rparr>) dir = get_certificate_filepath n dir"
  "get_certificate_filepath (n\<lparr>verified_node := c\<rparr>) dir = get_certificate_filepath n dir"
  "get_certificate_filepath (n\<lparr>certificate_filepath := d\<rparr>) dir = get_certificate_filepath n dir"
  by (simp_all add: get_certificate_filepath_def certificate_filename_def)



















section \<open>A candidate that fails verification\<close>

text \<open>
  C4. A learner that knows its teacher \<open>t\<close> only runs a lazy round in which the
  teacher's batch is a node \<open>b\<close> with a forged interface signature followed by a
  sound node \<open>c\<close>. The \<^verbatim>\<open>InvalidNode\<close> of \<^verbatim>\<open>validate_metadata\<close> is caught and
  logged, \<^verbatim>\<open>remember_node\<close> is called for \<open>b\<close> all the same, verifies it again and lets
  \<^verbatim>\<open>InvalidNode\<close> out of the round: \<open>c\<close> is never looked at, and
  \<^verbatim>\<open>_adjust_learning\<close> is not reached.
\<close>

theorem failed_candidate_aborts_round:
  "(case learn_from_teacher_node
           (example_env [(example_node ''b'' 1)\<lparr>interface_signature_object := Some ''forged''\<rparr>,
                         example_node ''c'' 1])
           False (example_learner [(''0xt'', example_node ''t'' 1)]) of
      (r, L') \<Rightarrow> (r, map fst (nodes (known_nodes L')), rounds_without_new_nodes L',
                  learning_round L')) =
   (Inl InvalidNode, [''0xt''], 0, 1)"
  by (simp add: learn_from_teacher_node_def current_teacher_node_def cycle_teacher_node_def
      select_teacher_nodes_def shuffled_known_nodes_def learn_candidate_def new_instance_def
      is_SuspiciousActivity_def is_requests_ConnectionError_def remember_node_def
      verify_and_store_def node_defs example_defs Let_def)

section \<open>Waiting for nodes\<close>





end
